theory Spec2Isabelle
  imports Complex_Main
begin

section \<open>Python values\<close>

text \<open>
  The script \<^verbatim>\<open>histo_opt.py\<close> works on Python ints, floats and strings, kept in a
  dictionary with string keys. A float is modelled by the number it denotes: a finite float
  is a real (no rounding, no overflow to infinity, no signed zero), and the three
  non-finite floats that \<^verbatim>\<open>float()\<close> reads from the tokens \<^verbatim>\<open>inf\<close>,
  \<^verbatim>\<open>infinity\<close> and \<^verbatim>\<open>nan\<close> are values of their own. Strings are ASCII text.
\<close>

datatype pyfloat = Fin real | PosInf | NegInf | NaN

datatype pyval = PInt int | PFloat pyfloat | PStr string

datatype exit_arg = ExitCode int | ExitMsg string

datatype error =
    ValueError string
  | KeyError string
  | NameError string
  | TypeError
  | ZeroDivisionError
  | OverflowError
  | SystemExit exit_arg

text \<open>The status the interpreter ends with on \<^verbatim>\<open>sys.exit(arg)\<close>: the integer itself,
  and 1 for a message (which goes to stderr).\<close>

fun exit_status :: "exit_arg \<Rightarrow> int" where
  "exit_status (ExitCode n) = n"
| "exit_status (ExitMsg m) = 1"

subsection \<open>Float arithmetic\<close>

fun fsub :: "pyfloat \<Rightarrow> pyfloat \<Rightarrow> pyfloat" where
  "fsub (Fin a) (Fin b) = Fin (a - b)"
| "fsub NaN y = NaN"
| "fsub x NaN = NaN"
| "fsub PosInf PosInf = NaN"
| "fsub NegInf NegInf = NaN"
| "fsub PosInf y = PosInf"
| "fsub NegInf y = NegInf"
| "fsub (Fin a) PosInf = NegInf"
| "fsub (Fin a) NegInf = PosInf"

fun fadd :: "pyfloat \<Rightarrow> pyfloat \<Rightarrow> pyfloat" where
  "fadd (Fin a) (Fin b) = Fin (a + b)"
| "fadd NaN y = NaN"
| "fadd x NaN = NaN"
| "fadd PosInf NegInf = NaN"
| "fadd NegInf PosInf = NaN"
| "fadd PosInf y = PosInf"
| "fadd NegInf y = NegInf"
| "fadd (Fin a) PosInf = PosInf"
| "fadd (Fin a) NegInf = NegInf"

text \<open>\<open>fdiv x y\<close> is \<^verbatim>\<open>x / y\<close> for a divisor that is not zero (Python raises
  \<^verbatim>\<open>ZeroDivisionError\<close> before dividing, see \<open>py_truediv\<close>).\<close>

fun fdiv :: "pyfloat \<Rightarrow> pyfloat \<Rightarrow> pyfloat" where
  "fdiv (Fin a) (Fin b) = Fin (a / b)"
| "fdiv NaN y = NaN"
| "fdiv x NaN = NaN"
| "fdiv (Fin a) y = Fin 0"
| "fdiv PosInf (Fin b) = (if 0 < b then PosInf else NegInf)"
| "fdiv NegInf (Fin b) = (if 0 < b then NegInf else PosInf)"
| "fdiv x y = NaN"

text \<open>\<open>fless x y\<close> is \<^verbatim>\<open>x < y\<close>; every comparison with NaN is false.\<close>

fun fless :: "pyfloat \<Rightarrow> pyfloat \<Rightarrow> bool" where
  "fless (Fin a) (Fin b) = (a < b)"
| "fless NaN y = False"
| "fless x NaN = False"
| "fless x NegInf = False"
| "fless PosInf y = False"
| "fless x y = True"

definition fle :: "pyfloat \<Rightarrow> pyfloat \<Rightarrow> bool" where
  "fle x y = (x \<noteq> NaN \<and> y \<noteq> NaN \<and> \<not> fless y x)"

text \<open>Truncation toward zero, as \<^verbatim>\<open>int()\<close> does on a finite float.\<close>

definition trunc :: "real \<Rightarrow> int" where
  "trunc r = (if 0 \<le> r then \<lfloor>r\<rfloor> else \<lceil>r\<rceil>)"

subsection \<open>Strings\<close>

definition is_space :: "char \<Rightarrow> bool" where
  "is_space c = (let n = (of_char c :: nat) in (9 \<le> n \<and> n \<le> 13) \<or> (28 \<le> n \<and> n \<le> 32))"

definition strip :: "string \<Rightarrow> string" where
  "strip s = rev (dropWhile is_space (rev (dropWhile is_space s)))"

definition lower_char :: "char \<Rightarrow> char" where
  "lower_char c = (let n = (of_char c :: nat) in if 65 \<le> n \<and> n \<le> 90 then char_of (n + 32) else c)"

definition lower :: "string \<Rightarrow> string" where
  "lower s = map lower_char s"

text \<open>\<^verbatim>\<open>s.split(sep)\<close> for a one-character separator: always at least one part.\<close>

fun split_on :: "char \<Rightarrow> string \<Rightarrow> string list" where
  "split_on sep [] = [[]]"
| "split_on sep (c # cs) =
     (if c = sep then [] # split_on sep cs
      else (case split_on sep cs of [] \<Rightarrow> [[c]] | p # ps \<Rightarrow> (c # p) # ps))"

text \<open>The lines a text file yields when iterated: each keeps its newline, and the text
  after the last newline (if any) is a last line without one. The contents are the text
  as Python hands it over, decoded and with newlines translated to \<^verbatim>\<open>\n\<close>.\<close>

fun file_lines :: "string \<Rightarrow> string list" where
  "file_lines [] = []"
| "file_lines (c # cs) =
     (if c = CHR 0x0A then [c] # file_lines cs
      else (case file_lines cs of [] \<Rightarrow> [[c]] | l # ls \<Rightarrow> (c # l) # ls))"

subsection \<open>Reading numbers from strings\<close>

text \<open>
  The grammar of \<^verbatim>\<open>float(str)\<close>, after surrounding whitespace is stripped:
  \<^verbatim>\<open>[sign] (inf | infinity | nan | number [exponent])\<close> with
  \<^verbatim>\<open>digitpart ::= digit (["_"] digit)*\<close>,
  \<^verbatim>\<open>number ::= [digitpart] "." digitpart | digitpart ["."]\<close> and
  \<^verbatim>\<open>exponent ::= ("e" | "E") [sign] digitpart\<close>; the words are matched without regard
  to case. \<^verbatim>\<open>int(str)\<close> reads \<^verbatim>\<open>[sign] digitpart\<close>.
\<close>

definition digit_val :: "char \<Rightarrow> nat option" where
  "digit_val c = (let n = (of_char c :: nat) in if 48 \<le> n \<and> n \<le> 57 then Some (n - 48) else None)"

fun digits_rest :: "string \<Rightarrow> nat list \<times> string" where
  "digits_rest [] = ([], [])"
| "digits_rest [c] =
     (case digit_val c of Some d \<Rightarrow> ([d], []) | None \<Rightarrow> ([], [c]))"
| "digits_rest (c # c2 # cs) =
     (case digit_val c of
        Some d \<Rightarrow> (case digits_rest (c2 # cs) of (ds, r) \<Rightarrow> (d # ds, r))
      | None \<Rightarrow>
          (if c = CHR ''_'' then
             (case digit_val c2 of
                Some d \<Rightarrow> (case digits_rest cs of (ds, r) \<Rightarrow> (d # ds, r))
              | None \<Rightarrow> ([], c # c2 # cs))
           else ([], c # c2 # cs)))"

fun digitpart :: "string \<Rightarrow> (nat list \<times> string) option" where
  "digitpart [] = None"
| "digitpart (c # cs) =
     (case digit_val c of
        None \<Rightarrow> None
      | Some d \<Rightarrow> (case digits_rest cs of (ds, r) \<Rightarrow> Some (d # ds, r)))"

definition nat_of_digits :: "nat list \<Rightarrow> nat" where
  "nat_of_digits ds = foldl (\<lambda>a d. 10 * a + d) 0 ds"

fun parse_sign :: "string \<Rightarrow> bool \<times> string" where
  "parse_sign [] = (False, [])"
| "parse_sign (c # cs) =
     (if c = CHR ''-'' then (True, cs) else if c = CHR ''+'' then (False, cs) else (False, c # cs))"

definition mantissa :: "nat list \<Rightarrow> nat list \<Rightarrow> real" where
  "mantissa ip fp = real (nat_of_digits ip) + real (nat_of_digits fp) / 10 ^ length fp"

fun number_part :: "string \<Rightarrow> (real \<times> string) option" where
  "number_part s =
     (case digitpart s of
        Some (ip, r) \<Rightarrow>
          (case r of
             [] \<Rightarrow> Some (mantissa ip [], [])
           | c # r' \<Rightarrow>
               (if c = CHR ''.'' then
                  (case digitpart r' of
                     Some (fp, r'') \<Rightarrow> Some (mantissa ip fp, r'')
                   | None \<Rightarrow> Some (mantissa ip [], r'))
                else Some (mantissa ip [], r)))
      | None \<Rightarrow>
          (case s of
             [] \<Rightarrow> None
           | c # r' \<Rightarrow>
               (if c = CHR ''.'' then
                  (case digitpart r' of
                     Some (fp, r'') \<Rightarrow> Some (mantissa [] fp, r'')
                   | None \<Rightarrow> None)
                else None)))"

fun signed_digits :: "string \<Rightarrow> int option" where
  "signed_digits s =
     (case parse_sign s of (neg, r) \<Rightarrow>
        (case digitpart r of
           None \<Rightarrow> None
         | Some (ds, rest) \<Rightarrow>
             (if rest = [] then Some (if neg then - int (nat_of_digits ds) else int (nat_of_digits ds))
              else None)))"

fun exponent_part :: "string \<Rightarrow> int option" where
  "exponent_part [] = Some 0"
| "exponent_part (c # r) = (if c = CHR ''e'' \<or> c = CHR ''E'' then signed_digits r else None)"

definition scale :: "real \<Rightarrow> int \<Rightarrow> real" where
  "scale m e = (if 0 \<le> e then m * 10 ^ nat e else m / 10 ^ nat (- e))"

definition float_of_string :: "string \<Rightarrow> pyfloat option" where
  "float_of_string s =
     (case parse_sign (strip s) of (neg, r) \<Rightarrow>
        (if lower r = ''inf'' \<or> lower r = ''infinity'' then Some (if neg then NegInf else PosInf)
         else if lower r = ''nan'' then Some NaN
         else (case number_part r of
                 None \<Rightarrow> None
               | Some (m, r') \<Rightarrow>
                   (case exponent_part r' of
                      None \<Rightarrow> None
                    | Some e \<Rightarrow> Some (Fin (if neg then - scale m e else scale m e))))))"

definition int_of_string :: "string \<Rightarrow> int option" where
  "int_of_string s = signed_digits (strip s)"

text \<open>\<^verbatim>\<open>float(x)\<close> and \<^verbatim>\<open>int(x)\<close>.\<close>

fun py_float :: "pyval \<Rightarrow> error + pyfloat" where
  "py_float (PStr s) =
     (case float_of_string s of
        None \<Rightarrow> Inl (ValueError ''could not convert string to float'')
      | Some f \<Rightarrow> Inr f)"
| "py_float (PInt i) = Inr (Fin (of_int i))"
| "py_float (PFloat f) = Inr f"

fun py_int :: "pyval \<Rightarrow> error + int" where
  "py_int (PStr s) =
     (case int_of_string s of
        None \<Rightarrow> Inl (ValueError ''invalid literal for int() with base 10'')
      | Some i \<Rightarrow> Inr i)"
| "py_int (PInt i) = Inr i"
| "py_int (PFloat (Fin r)) = Inr (trunc r)"
| "py_int (PFloat NaN) = Inl (ValueError ''cannot convert float NaN to integer'')"
| "py_int (PFloat PosInf) = Inl OverflowError"
| "py_int (PFloat NegInf) = Inl OverflowError"

text \<open>Python's arithmetic and comparisons on values, as far as the script uses them. A
  string operand of an arithmetic operator or of \<^verbatim>\<open>>\<close> against a number raises
  \<^verbatim>\<open>TypeError\<close>; \<^verbatim>\<open>==\<close> between a string and a number is just false.\<close>

fun to_float :: "pyval \<Rightarrow> error + pyfloat" where
  "to_float (PInt i) = Inr (Fin (of_int i))"
| "to_float (PFloat f) = Inr f"
| "to_float (PStr s) = Inl TypeError"

definition and_then :: "error + 'a \<Rightarrow> ('a \<Rightarrow> error + 'b) \<Rightarrow> error + 'b" where
  "and_then r f = (case r of Inl e \<Rightarrow> Inl e | Inr x \<Rightarrow> f x)"

fun py_sub :: "pyval \<Rightarrow> pyval \<Rightarrow> error + pyval" where
  "py_sub (PInt a) (PInt b) = Inr (PInt (a - b))"
| "py_sub x y =
     and_then (to_float x) (\<lambda>a. and_then (to_float y) (\<lambda>b. Inr (PFloat (fsub a b))))"

text \<open>True division \<^verbatim>\<open>x / y\<close>: the result is a float also for two ints.\<close>

definition py_truediv :: "pyval \<Rightarrow> pyval \<Rightarrow> error + pyval" where
  "py_truediv x y =
     and_then (to_float x) (\<lambda>a. and_then (to_float y) (\<lambda>b.
       if b = Fin 0 then Inl ZeroDivisionError else Inr (PFloat (fdiv a b))))"

text \<open>\<^verbatim>\<open>x == 0\<close> and \<^verbatim>\<open>x > 0\<close>.\<close>

fun py_eq0 :: "pyval \<Rightarrow> bool" where
  "py_eq0 (PInt i) = (i = 0)"
| "py_eq0 (PFloat f) = (f = Fin 0)"
| "py_eq0 (PStr s) = False"

fun py_gt0 :: "pyval \<Rightarrow> error + bool" where
  "py_gt0 (PInt i) = Inr (0 < i)"
| "py_gt0 (PFloat f) = Inr (fless (Fin 0) f)"
| "py_gt0 (PStr s) = Inl TypeError"

section \<open>The settings dictionary\<close>

type_synonym config = "string \<rightharpoonup> pyval"

text \<open>\<^verbatim>\<open>config[key]\<close>: a missing key raises \<^verbatim>\<open>KeyError\<close>.\<close>

definition getitem :: "config \<Rightarrow> string \<Rightarrow> error + pyval" where
  "getitem config key = (case config key of None \<Rightarrow> Inl (KeyError key) | Some v \<Rightarrow> Inr v)"

definition default_config :: config where
  "default_config =
     [''binlength'' \<mapsto> PInt 0,
      ''maxrange'' \<mapsto> PFloat (Fin 1500000),
      ''minrange'' \<mapsto> PInt 0,
      ''color'' \<mapsto> PStr ''b'',
      ''values'' \<mapsto> PStr ''true'',
      ''bins'' \<mapsto> PInt 0]"

section \<open>The world the script acts on\<close>

text \<open>
  What the script prints, the files it can open and the chart it draws are the state the
  functions pass along. \<open>files w path\<close> is the text of the file that
  \<^verbatim>\<open>open(path, 'r')\<close> yields, and \<open>None\<close> where the open fails with
  \<^verbatim>\<open>FileNotFoundError\<close> or another \<^verbatim>\<open>IOError\<close>. \<open>ModuleDoc\<close> stands for the
  module's docstring, the usage text that \<^verbatim>\<open>print(__doc__)\<close> writes.

  The chart is what the pyplot calls have put on the current figure since it was last
  cleared: the bar containers (heights, edges, colour and the values the legend label is
  formatted from), the axis labels, the legend, the ticks and the text annotations. An
  annotation keeps the integer whose decimal form is its text.
\<close>

datatype printed = Text string | ModuleDoc

record legend_label =
  entries :: nat
  label_maxrange :: pyval
  label_minrange :: pyval
  label_bin_length :: pyval
  label_nbins :: pyval

record bar_container =
  heights :: "nat list"
  edges :: "pyfloat list"
  bar_color :: pyval
  bar_label :: legend_label

record figure =
  bars :: "bar_container list"
  xlabel :: "string option"
  ylabel :: "string option"
  legend_shown :: bool
  xticks :: "pyfloat list option"
  texts :: "(pyfloat \<times> nat \<times> int) list"

record world =
  files :: "string \<rightharpoonup> string"
  stdout :: "printed list"
  fig :: figure

definition py_print :: "printed \<Rightarrow> world \<Rightarrow> world" where
  "py_print x w = w\<lparr>stdout := stdout w @ [x]\<rparr>"

definition empty_figure :: figure where
  "empty_figure = \<lparr>bars = [], xlabel = None, ylabel = None, legend_shown = False,
     xticks = None, texts = []\<rparr>"

section \<open>Argument parsing\<close>

text \<open>The body of the \<^verbatim>\<open>try\<close> in \<^verbatim>\<open>parse_args\<close>, for one token. The unpacking
  \<^verbatim>\<open>key, value = arg.split('=')\<close> raises \<^verbatim>\<open>ValueError\<close> unless the split has
  exactly two parts. The value is stored under the key as it was written.\<close>

definition convert_arg :: "config \<Rightarrow> string \<Rightarrow> error + config" where
  "convert_arg config arg =
     (case split_on (CHR ''='') arg of
        [] \<Rightarrow> Inl (ValueError ''not enough values to unpack'')
      | [p] \<Rightarrow> Inl (ValueError ''not enough values to unpack'')
      | [key, val] \<Rightarrow>
          (if lower key \<in> set [''binlength'', ''maxrange'', ''minrange''] then
             and_then (py_float (PStr val)) (\<lambda>f. Inr (config(key \<mapsto> PFloat f)))
           else if lower key \<in> set [''file'', ''color'', ''values''] then
             Inr (config(key \<mapsto> PStr val))
           else if lower key = ''bins'' then
             and_then (py_int (PStr val)) (\<lambda>i. Inr (config(key \<mapsto> PInt i)))
           else Inr config)
      | key # val # others \<Rightarrow> Inl (ValueError ''too many values to unpack''))"

text \<open>The loop over \<^verbatim>\<open>sys.argv[1:]\<close>. A \<^verbatim>\<open>ValueError\<close> of the body is caught:
  the docstring is printed and \<^verbatim>\<open>sys.exit\<close> is called with a message naming the
  token.\<close>

fun parse_loop :: "config \<Rightarrow> string list \<Rightarrow> world \<Rightarrow> (error + config) \<times> world" where
  "parse_loop config [] w = (Inr config, w)"
| "parse_loop config (arg # args) w =
     (case convert_arg config arg of
        Inr config' \<Rightarrow> parse_loop config' args w
      | Inl (ValueError m) \<Rightarrow>
          (Inl (SystemExit (ExitMsg (''Invalid argument format: '' @ arg))), py_print ModuleDoc w)
      | Inl e \<Rightarrow> (Inl e, w))"

definition parse_args :: "string list \<Rightarrow> world \<Rightarrow> (error + config) \<times> world" where
  "parse_args argv w = parse_loop default_config argv w"

section \<open>Sample extraction\<close>

text \<open>The loop of \<^verbatim>\<open>read_data\<close> over the lines of the file, with its counter \<open>i\<close>
  and the list \<open>data\<close> it appends to.\<close>

fun read_lines :: "nat \<Rightarrow> pyfloat list \<Rightarrow> string list \<Rightarrow> error + pyfloat list" where
  "read_lines i data [] = Inr data"
| "read_lines i data (line # rest) =
     (if i = 0 then read_lines (i + 1) data rest
      else if length (split_on (CHR '','') line) > 1 then
        (case py_float (PStr (split_on (CHR '','') line ! 1)) of
           Inr f \<Rightarrow> read_lines i (data @ [f]) rest
         | Inl (ValueError m) \<Rightarrow> read_lines i data rest
         | Inl e \<Rightarrow> Inl e)
      else read_lines i data rest)"

text \<open>The module defines no \<^verbatim>\<open>display_help\<close> and imports none (its names are
  \<^verbatim>\<open>matplotlib\<close>, \<^verbatim>\<open>FuncAnimation\<close>, \<^verbatim>\<open>plt\<close>, \<^verbatim>\<open>np\<close>, \<^verbatim>\<open>sys\<close> and its
  own five functions), so evaluating the name in the handler raises
  \<^verbatim>\<open>NameError\<close>.\<close>

definition display_help :: "world \<Rightarrow> (error + unit) \<times> world" where
  "display_help w = (Inl (NameError ''display_help''), w)"

definition open_error_message :: "string \<Rightarrow> string" where
  "open_error_message filePath =
     ''Error: The file '' @ [CHR 0x27] @ filePath @ [CHR 0x27] @ '' could not be found or opened.''"

definition read_data :: "string \<Rightarrow> world \<Rightarrow> (error + pyfloat list) \<times> world" where
  "read_data filePath w =
     (case files w filePath of
        Some contents \<Rightarrow> (read_lines 0 [] (file_lines contents), w)
      | None \<Rightarrow>
          (case display_help (py_print (Text (open_error_message filePath)) w) of
             (Inl e, w') \<Rightarrow> (Inl e, w')
           | (Inr u, w') \<Rightarrow> (Inl (SystemExit (ExitCode 1)), w')))"

section \<open>Bin layout\<close>

text \<open>The \<^verbatim>\<open>if\<close>/\<^verbatim>\<open>elif\<close>/\<^verbatim>\<open>else\<close> of \<^verbatim>\<open>plot_histogram\<close> that determines
  \<^verbatim>\<open>nbins\<close> and \<^verbatim>\<open>bin_length\<close>, with Python's order of evaluation: the right
  operand of \<^verbatim>\<open>and\<close> is evaluated only when the left one is true.\<close>

definition config_error :: error where
  "config_error = ValueError ''Either the number of bins or the bin length must be specified.''"

definition bin_layout :: "config \<Rightarrow> pyval \<Rightarrow> pyval \<Rightarrow> error + (pyval \<times> pyval)" where
  "bin_layout config maxrange minrange =
     and_then (getitem config ''bins'') (\<lambda>b0.
     and_then (if py_eq0 b0 then and_then (getitem config ''binlength'') py_gt0 else Inr False) (\<lambda>c1.
       if c1 then
         and_then (getitem config ''binlength'') (\<lambda>bin_length.
         and_then (py_sub maxrange minrange) (\<lambda>d.
         and_then (py_truediv d bin_length) (\<lambda>q.
         and_then (py_int q) (\<lambda>nbins. Inr (PInt nbins, bin_length)))))
       else
         and_then (getitem config ''binlength'') (\<lambda>l0.
         and_then (if py_eq0 l0 then and_then (getitem config ''bins'') py_gt0 else Inr False) (\<lambda>c2.
           if c2 then
             and_then (getitem config ''bins'') (\<lambda>nbins.
             and_then (py_sub maxrange minrange) (\<lambda>d.
             and_then (py_truediv d nbins) (\<lambda>bin_length. Inr (nbins, bin_length))))
           else Inl config_error))))"

section \<open>The histogram of the plotting library\<close>

text \<open>
  \<^verbatim>\<open>plt.hist(data, bins=nbins, range=(minrange, maxrange), ...)\<close> bins the data with
  \<^verbatim>\<open>numpy.histogram\<close>, whose documented behaviour is modelled here: an integer number
  of bins below 1 and a range with \<^verbatim>\<open>max < min\<close> or a non-finite end are refused with
  \<^verbatim>\<open>ValueError\<close>, a number of bins that is not an integer with \<^verbatim>\<open>TypeError\<close>;
  a range of width zero is widened by one half on each side; the \<open>n + 1\<close> edges are
  evenly spaced; every bin is half-open \<open>[e\<^sub>i, e\<^sub>i\<^sub>+\<^sub>1)\<close> except the last, which includes
  its right edge; data outside the range (NaN too) is in no bin. Whether the colour names
  a colour is not modelled.
\<close>

definition bin_edges :: "real \<Rightarrow> real \<Rightarrow> nat \<Rightarrow> pyfloat list" where
  "bin_edges first_edge last_edge n =
     map (\<lambda>i. Fin (first_edge + real i * (last_edge - first_edge) / real n)) [0..<n + 1]"

definition in_bin :: "pyfloat list \<Rightarrow> nat \<Rightarrow> pyfloat \<Rightarrow> bool" where
  "in_bin es i x =
     (fle (es ! i) x \<and>
      (if i + 2 = length es then fle x (es ! (i + 1)) else fless x (es ! (i + 1))))"

definition bin_counts :: "pyfloat list \<Rightarrow> pyfloat list \<Rightarrow> nat list" where
  "bin_counts es data = map (\<lambda>i. length (filter (in_bin es i) data)) [0..<length es - 1]"

definition np_histogram ::
    "pyfloat list \<Rightarrow> pyval \<Rightarrow> pyval \<Rightarrow> pyval \<Rightarrow> error + (nat list \<times> pyfloat list)" where
  "np_histogram data nbins lo hi =
     (case nbins of
        PInt n \<Rightarrow>
          (if n < 1 then Inl (ValueError ''bins must be positive, when an integer'')
           else
             and_then (to_float lo) (\<lambda>first_edge.
             and_then (to_float hi) (\<lambda>last_edge.
               if fless last_edge first_edge then
                 Inl (ValueError ''max must be larger than min in range parameter.'')
               else
                 (case first_edge of
                    Fin a \<Rightarrow>
                      (case last_edge of
                         Fin b \<Rightarrow>
                           (if a = b then
                              Inr (bin_counts (bin_edges (a - 1 / 2) (b + 1 / 2) (nat n)) data,
                                   bin_edges (a - 1 / 2) (b + 1 / 2) (nat n))
                            else Inr (bin_counts (bin_edges a b (nat n)) data, bin_edges a b (nat n)))
                       | _ \<Rightarrow> Inl (ValueError ''supplied range is not finite''))
                  | _ \<Rightarrow> Inl (ValueError ''supplied range is not finite'')))))
      | _ \<Rightarrow> Inl TypeError)"

definition plt_clf :: "figure \<Rightarrow> figure" where
  "plt_clf f = empty_figure"

definition plt_hist ::
    "pyfloat list \<Rightarrow> pyval \<Rightarrow> pyval \<Rightarrow> pyval \<Rightarrow> pyval \<Rightarrow> legend_label \<Rightarrow> figure
      \<Rightarrow> (error + (nat list \<times> pyfloat list)) \<times> figure" where
  "plt_hist data nbins color lo hi lab f =
     (case np_histogram data nbins lo hi of
        Inl e \<Rightarrow> (Inl e, f)
      | Inr (vs, es) \<Rightarrow>
          (Inr (vs, es),
           f\<lparr>bars := bars f @ [\<lparr>heights = vs, edges = es, bar_color = color, bar_label = lab\<rparr>]\<rparr>))"

definition plt_text :: "pyfloat \<Rightarrow> nat \<Rightarrow> int \<Rightarrow> figure \<Rightarrow> figure" where
  "plt_text x y s f = f\<lparr>texts := texts f @ [(x, y, s)]\<rparr>"

section \<open>The render cycle\<close>

text \<open>The loop over \<^verbatim>\<open>zip(bins, values)\<close> that writes the count above every bar that
  is not empty, at \<^verbatim>\<open>b + bin_length / 2\<close>.\<close>

definition text_x :: "pyfloat \<Rightarrow> pyval \<Rightarrow> error + pyfloat" where
  "text_x b bin_length =
     and_then (py_truediv bin_length (PInt 2)) (\<lambda>h.
     and_then (to_float h) (\<lambda>h'. Inr (fadd b h')))"

fun annotate :: "pyval \<Rightarrow> (pyfloat \<times> nat) list \<Rightarrow> figure \<Rightarrow> (error + unit) \<times> figure" where
  "annotate bin_length [] f = (Inr (), f)"
| "annotate bin_length ((b, v) # rest) f =
     (if v > 0 then
        (case text_x b bin_length of
           Inl e \<Rightarrow> (Inl e, f)
         | Inr x \<Rightarrow> annotate bin_length rest (plt_text x v (int v) f))
      else annotate bin_length rest f)"

text \<open>The plotting part of \<^verbatim>\<open>plot_histogram\<close>, from \<^verbatim>\<open>plt.clf()\<close> on.\<close>

definition draw_chart ::
    "config \<Rightarrow> pyfloat list \<Rightarrow> pyval \<Rightarrow> pyval \<Rightarrow> pyval \<Rightarrow> pyval \<Rightarrow> pyval \<Rightarrow> figure
      \<Rightarrow> (error + unit) \<times> figure" where
  "draw_chart config data maxrange minrange color nbins bin_length f =
     (case plt_hist data nbins color minrange maxrange
             \<lparr>entries = length data, label_maxrange = maxrange, label_minrange = minrange,
              label_bin_length = bin_length, label_nbins = nbins\<rparr>
             (plt_clf f) of
        (Inl e, f1) \<Rightarrow> (Inl e, f1)
      | (Inr (vals, bns), f1) \<Rightarrow>
          (case getitem config ''values'' of
             Inl e \<Rightarrow>
               (Inl e, f1\<lparr>xlabel := Some ''Value'', ylabel := Some ''Frequency'',
                          legend_shown := True, xticks := Some bns\<rparr>)
           | Inr v \<Rightarrow>
               (if v = PStr ''true'' then
                  annotate bin_length (zip bns vals)
                    (f1\<lparr>xlabel := Some ''Value'', ylabel := Some ''Frequency'',
                        legend_shown := True, xticks := Some bns\<rparr>)
                else
                  (Inr (), f1\<lparr>xlabel := Some ''Value'', ylabel := Some ''Frequency'',
                               legend_shown := True, xticks := Some bns\<rparr>))))"

text \<open>\<^verbatim>\<open>plot_histogram(config)\<close>. The dictionary is handed over by reference, so the
  function returns it with the result, as it is when the call ends. The script stores only
  strings under \<^verbatim>\<open>file\<close>; a path that is not a string is a \<^verbatim>\<open>TypeError\<close> here.\<close>

definition plot_histogram :: "config \<Rightarrow> world \<Rightarrow> (error + unit) \<times> config \<times> world" where
  "plot_histogram config w =
     (case getitem config ''file'' of
        Inl e \<Rightarrow> (Inl e, config, w)
      | Inr (PStr filePath) \<Rightarrow>
          (case read_data filePath w of
             (Inl e, w1) \<Rightarrow> (Inl e, config, w1)
           | (Inr data, w1) \<Rightarrow>
               (case and_then (getitem config ''maxrange'') (\<lambda>maxrange.
                     and_then (getitem config ''minrange'') (\<lambda>minrange.
                     and_then (getitem config ''color'') (\<lambda>color.
                     and_then (bin_layout config maxrange minrange) (\<lambda>(nbins, bin_length).
                       Inr (maxrange, minrange, color, nbins, bin_length))))) of
                  Inl e \<Rightarrow> (Inl e, config, w1)
                | Inr (maxrange, minrange, color, nbins, bin_length) \<Rightarrow>
                    (case draw_chart config data maxrange minrange color nbins bin_length (fig w1) of
                       (r, f) \<Rightarrow> (r, config, w1\<lparr>fig := f\<rparr>))))
      | Inr other \<Rightarrow> (Inl TypeError, config, w))"

definition draw_histogram :: "nat \<Rightarrow> config \<Rightarrow> world \<Rightarrow> (error + unit) \<times> config \<times> world" where
  "draw_histogram i config w = plot_histogram config w"

text \<open>The animation calls \<^verbatim>\<open>draw_histogram(i, config)\<close> for the frame indices
  \<open>0, \<dots>, 119\<close>, over and over until the window is closed; \<open>frames\<close> is the list of
  indices handed over in that time, each frame with the dictionary the one before left. A
  frame that raises ends the run.\<close>

fun run_frames :: "nat list \<Rightarrow> config \<Rightarrow> world \<Rightarrow> (error + unit) \<times> config \<times> world" where
  "run_frames [] config w = (Inr (), config, w)"
| "run_frames (i # frames) config w =
     (case draw_histogram i config w of
        (Inl e, config', w') \<Rightarrow> (Inl e, config', w')
      | (Inr u, config', w') \<Rightarrow> run_frames frames config' w')"

definition main :: "string list \<Rightarrow> nat list \<Rightarrow> world \<Rightarrow> (error + unit) \<times> world" where
  "main argv frames w =
     (case parse_args argv w of
        (Inl e, w1) \<Rightarrow> (Inl e, w1)
      | (Inr config, w1) \<Rightarrow>
          (case run_frames frames config (w1\<lparr>fig := empty_figure\<rparr>) of
             (r, config', w2) \<Rightarrow> (r, w2)))"

section \<open>Notions the properties are stated with\<close>

text \<open>A value of a numeric type, as \<^verbatim>\<open>parse_args\<close> stores under \<^verbatim>\<open>bins\<close>,
  \<^verbatim>\<open>binlength\<close>, \<^verbatim>\<open>maxrange\<close> and \<^verbatim>\<open>minrange\<close>.\<close>

fun numeric :: "pyval \<Rightarrow> bool" where
  "numeric (PInt i) = True"
| "numeric (PFloat f) = True"
| "numeric (PStr s) = False"

text \<open>The invariant of the settings as the specification words it: exactly one of bin
  count and bin width is non-zero.\<close>

definition exactly_one_nonzero :: "config \<Rightarrow> bool" where
  "exactly_one_nonzero config =
     (case config ''bins'' of
        None \<Rightarrow> False
      | Some b \<Rightarrow>
          (case config ''binlength'' of
             None \<Rightarrow> False
           | Some l \<Rightarrow> (py_eq0 b \<and> \<not> py_eq0 l) \<or> (py_eq0 l \<and> \<not> py_eq0 b)))"




text \<open>The keys \<^verbatim>\<open>parse_args\<close> recognises, and a well-formed token: one that splits at
  \<^verbatim>\<open>=\<close> into a key and a value, the value reading as a float or an int where the key
  asks for one.\<close>

definition recognised_keys :: "string list" where
  "recognised_keys =
     [''binlength'', ''maxrange'', ''minrange'', ''file'', ''color'', ''values'', ''bins'']"

definition value_ok :: "string \<Rightarrow> string \<Rightarrow> bool" where
  "value_ok key val =
     (if lower key \<in> set [''binlength'', ''maxrange'', ''minrange''] then float_of_string val \<noteq> None
      else if lower key = ''bins'' then int_of_string val \<noteq> None
      else True)"

definition well_formed_token :: "string \<Rightarrow> bool" where
  "well_formed_token tok =
     (case split_on (CHR ''='') tok of [key, val] \<Rightarrow> value_ok key val | _ \<Rightarrow> False)"

text \<open>The types \<^verbatim>\<open>parse_args\<close> keeps under its keys: an int under \<^verbatim>\<open>bins\<close>,
  numbers under \<^verbatim>\<open>binlength\<close>, \<^verbatim>\<open>maxrange\<close> and \<^verbatim>\<open>minrange\<close>, strings under
  \<^verbatim>\<open>color\<close> and \<^verbatim>\<open>values\<close>, and a string under \<^verbatim>\<open>file\<close> if the key is there.\<close>

definition settings_typed :: "config \<Rightarrow> bool" where
  "settings_typed config =
     ((case config ''bins'' of Some (PInt b) \<Rightarrow> True | _ \<Rightarrow> False) \<and>
      (case config ''binlength'' of Some v \<Rightarrow> numeric v | None \<Rightarrow> False) \<and>
      (case config ''maxrange'' of Some v \<Rightarrow> numeric v | None \<Rightarrow> False) \<and>
      (case config ''minrange'' of Some v \<Rightarrow> numeric v | None \<Rightarrow> False) \<and>
      (case config ''color'' of Some (PStr s) \<Rightarrow> True | _ \<Rightarrow> False) \<and>
      (case config ''values'' of Some (PStr s) \<Rightarrow> True | _ \<Rightarrow> False) \<and>
      (case config ''file'' of None \<Rightarrow> True | Some (PStr s) \<Rightarrow> True | _ \<Rightarrow> False))"

text \<open>Concrete worlds: one without any file, and the scenario of a five-line file
  \<^verbatim>\<open>data.csv\<close> read with \<^verbatim>\<open>minrange=0 maxrange=40 bins=4\<close>.\<close>

definition no_files :: world where
  "no_files = \<lparr>files = Map.empty, stdout = [], fig = empty_figure\<rparr>"

definition scenario_contents :: string where
  "scenario_contents =
     ''header'' @ [CHR 0x0A] @ ''1,10.0'' @ [CHR 0x0A] @ ''2,20.0'' @ [CHR 0x0A] @
     ''3,bad'' @ [CHR 0x0A] @ ''4,30.0'' @ [CHR 0x0A]"

definition scenario_world :: world where
  "scenario_world =
     \<lparr>files = [''data.csv'' \<mapsto> scenario_contents], stdout = [], fig = empty_figure\<rparr>"

definition scenario_argv :: "string list" where
  "scenario_argv = [''file=data.csv'', ''minrange=0'', ''maxrange=40'', ''bins=4'']"

section \<open>Auxiliary facts\<close>

lemma and_then_simps [simp]: "and_then (Inl e) f = Inl e" "and_then (Inr x) f = f x"
  by (simp_all add: and_then_def)

lemma and_then_Inl: "and_then r f = Inl e \<longleftrightarrow> r = Inl e \<or> (\<exists>x. r = Inr x \<and> f x = Inl e)"
  by (cases r) simp_all

subsection \<open>Arithmetic on values\<close>

lemma py_sub_no_config_error: "py_sub x y \<noteq> Inl config_error"
  by (cases x; cases y) (simp_all add: config_error_def and_then_Inl)

lemma py_truediv_no_config_error: "py_truediv x y \<noteq> Inl config_error"
  by (cases x; cases y) (simp_all add: py_truediv_def config_error_def)

lemma py_int_no_config_error: "py_int (PFloat f) \<noteq> Inl config_error"
  by (cases f) (simp_all add: config_error_def)

lemma py_truediv_float: "py_truediv x y = Inr q \<Longrightarrow> \<exists>f. q = PFloat f"
  by (cases x; cases y) (auto simp: py_truediv_def split: if_splits)

lemma py_gt0_numeric: "numeric x \<Longrightarrow> \<exists>b. py_gt0 x = Inr b"
  by (cases x) simp_all





subsection \<open>Keys a function does not read\<close>





subsection \<open>The parsing loop\<close>

lemma convert_arg_error: "convert_arg config arg = Inl e \<Longrightarrow> \<exists>m. e = ValueError m"
  by (auto simp: convert_arg_def and_then_Inl split: list.splits if_splits option.splits)

lemma convert_arg_malformed:
  "length (split_on (CHR ''='') arg) \<noteq> 2 \<Longrightarrow> \<exists>m. convert_arg config arg = Inl (ValueError m)"
  by (auto simp: convert_arg_def split: list.splits)

lemma convert_arg_well_formed:
  "well_formed_token tok \<Longrightarrow>
   \<exists>key val. split_on (CHR ''='') tok = [key, val] \<and>
     (convert_arg config tok = Inr config \<and> lower key \<notin> set recognised_keys \<or>
      (\<exists>v. convert_arg config tok = Inr (config(key \<mapsto> v)) \<and> lower key \<in> set recognised_keys))"
  by (auto simp: well_formed_token_def value_ok_def convert_arg_def recognised_keys_def
      split: list.splits if_splits)

lemma parse_loop_rejects:
  assumes "tok \<in> set argv" and "length (split_on (CHR ''='') tok) \<noteq> 2"
  shows "\<exists>bad \<in> set argv. parse_loop config argv w =
           (Inl (SystemExit (ExitMsg (''Invalid argument format: '' @ bad))), py_print ModuleDoc w)"
  using assms
proof (induction argv arbitrary: config)
  case Nil
  then show ?case by simp
next
  case (Cons arg args)
  show ?case
  proof (cases "convert_arg config arg")
    case (Inl e)
    then obtain m where "e = ValueError m" using convert_arg_error by blast
    with Inl show ?thesis by simp
  next
    case (Inr config')
    with Cons.prems convert_arg_malformed [of arg config] have "tok \<in> set args" by auto
    from Cons.IH [OF this Cons.prems(2), of config'] Inr show ?thesis by auto
  qed
qed

lemma parse_loop_no_file:
  assumes "\<forall>tok \<in> set argv. well_formed_token tok"
    and "\<forall>tok \<in> set argv. hd (split_on (CHR ''='') tok) \<noteq> ''file''"
    and "config ''file'' = None"
  shows "\<exists>config'. parse_loop config argv w = (Inr config', w) \<and> config' ''file'' = None"
  using assms
proof (induction argv arbitrary: config)
  case Nil
  then show ?case by simp
next
  case (Cons tok argv)
  from Cons.prems(1) have "well_formed_token tok" by simp
  from convert_arg_well_formed [OF this, of config]
  obtain key val where kv: "split_on (CHR ''='') tok = [key, val]"
    and cases: "convert_arg config tok = Inr config \<or>
                (\<exists>v. convert_arg config tok = Inr (config(key \<mapsto> v)))"
    by blast
  from Cons.prems(2) kv have "key \<noteq> ''file''" by simp
  with cases Cons.prems(3) obtain c1 where c1: "convert_arg config tok = Inr c1" "c1 ''file'' = None"
    by auto
  from Cons.IH [of c1] Cons.prems c1 show ?case by simp
qed

lemma lower_keys:
  "lower ''binlength'' = ''binlength''" "lower ''maxrange'' = ''maxrange''"
  "lower ''minrange'' = ''minrange''" "lower ''file'' = ''file''" "lower ''color'' = ''color''"
  "lower ''values'' = ''values''" "lower ''bins'' = ''bins''"
  by code_simp+

lemma convert_arg_typed:
  assumes "settings_typed config" and "convert_arg config tok = Inr config'"
  shows "settings_typed config'"
proof -
  from assms(2) obtain key val where kv: "split_on (CHR ''='') tok = [key, val]"
    by (auto simp: convert_arg_def split: list.splits)
  consider (f) "lower key \<in> set [''binlength'', ''maxrange'', ''minrange'']"
    | (s) "lower key \<in> set [''file'', ''color'', ''values'']"
    | (b) "lower key = ''bins''"
    | (u) "lower key \<notin> set [''binlength'', ''maxrange'', ''minrange'']"
          "lower key \<notin> set [''file'', ''color'', ''values'']" "lower key \<noteq> ''bins''"
    by blast
  then show ?thesis
  proof cases
    case f
    then obtain x where c': "config' = config(key \<mapsto> PFloat x)"
      using assms(2) kv by (auto simp: convert_arg_def and_then_def split: sum.splits)
    from f have "key \<noteq> ''bins''" "key \<noteq> ''color''" "key \<noteq> ''values''" "key \<noteq> ''file''"
      using lower_keys by auto
    with assms(1) show ?thesis unfolding c' settings_typed_def by simp
  next
    case s
    then have c': "config' = config(key \<mapsto> PStr val)"
      using assms(2) kv lower_keys by (auto simp: convert_arg_def split: if_splits)
    from s have "key \<noteq> ''bins''" "key \<noteq> ''binlength''" "key \<noteq> ''maxrange''"
      "key \<noteq> ''minrange''"
      using lower_keys by auto
    with assms(1) show ?thesis unfolding c' settings_typed_def by simp
  next
    case b
    then obtain n where c': "config' = config(key \<mapsto> PInt n)"
      using assms(2) kv by (auto simp: convert_arg_def and_then_def split: sum.splits)
    from b have "key \<noteq> ''binlength''" "key \<noteq> ''maxrange''" "key \<noteq> ''minrange''"
       "key \<noteq> ''color''" "key \<noteq> ''values''" "key \<noteq> ''file''"
      using lower_keys by auto
    with assms(1) show ?thesis unfolding c' settings_typed_def by simp
  next
    case u
    then have "config' = config" using assms(2) kv by (simp add: convert_arg_def)
    with assms(1) show ?thesis by simp
  qed
qed

lemma parse_loop_typed:
  "settings_typed config \<Longrightarrow> parse_loop config argv w = (Inr config', w') \<Longrightarrow>
   settings_typed config'"
proof (induction argv arbitrary: config)
  case Nil
  then show ?case by simp
next
  case (Cons tok argv)
  show ?case
  proof (cases "convert_arg config tok")
    case (Inl e)
    with Cons.prems(2) show ?thesis by (cases e) simp_all
  next
    case (Inr c1)
    with Cons.prems have "settings_typed c1" "parse_loop c1 argv w = (Inr config', w')"
      using convert_arg_typed by simp_all
    then show ?thesis by (rule Cons.IH)
  qed
qed

subsection \<open>Reading the file\<close>




lemma read_data_files: "files (snd (read_data p w)) = files w"
  by (simp add: read_data_def display_help_def py_print_def split: option.splits)

lemma read_data_fig: "fig (snd (read_data p w)) = fig w"
  by (simp add: read_data_def display_help_def py_print_def split: option.splits)

lemma read_data_result: "files w' = files w \<Longrightarrow> fst (read_data p w') = fst (read_data p w)"
  by (simp add: read_data_def display_help_def split: option.splits)

subsection \<open>The render cycle\<close>

lemma draw_chart_clears:
  "draw_chart config data maxrange minrange color nbins bin_length f =
   draw_chart config data maxrange minrange color nbins bin_length f'"
  by (simp add: draw_chart_def plt_clf_def)

lemma plot_histogram_config: "fst (snd (plot_histogram config w)) = config"
  by (simp add: plot_histogram_def split: sum.splits pyval.splits prod.splits)

lemma plot_histogram_files: "files (snd (snd (plot_histogram config w))) = files w"
  using read_data_files
  by (auto simp: plot_histogram_def split: sum.splits pyval.splits prod.splits)
    (metis snd_conv)+

lemma plot_histogram_stable:
  assumes "files w' = files w"
  shows "fst (plot_histogram config w') = fst (plot_histogram config w) \<and>
         (fig (snd (snd (plot_histogram config w'))) = fig (snd (snd (plot_histogram config w))) \<or>
          fig (snd (snd (plot_histogram config w'))) = fig w')"
proof (cases "getitem config ''file''")
  case (Inl e)
  then show ?thesis by (simp add: plot_histogram_def)
next
  case (Inr v)
  show ?thesis
  proof (cases v)
    case (PStr p)
    obtain r w1 where r: "read_data p w = (r, w1)" by (cases "read_data p w")
    obtain r' w1' where r': "read_data p w' = (r', w1')" by (cases "read_data p w'")
    have same: "r' = r" using read_data_result [OF assms, of p] r r' by simp
    have figs: "fig w1 = fig w" "fig w1' = fig w'"
      using read_data_fig [of p w] read_data_fig [of p w'] r r' by simp_all
    show ?thesis
    proof (cases r)
      case (Inl e)
      with Inr PStr r r' same figs show ?thesis by (simp add: plot_histogram_def)
    next
      case data: (Inr data)
      show ?thesis
        using Inr PStr r r' same figs data
          draw_chart_clears [of config data _ _ _ _ _ "fig w1'" "fig w1"]
        by (auto simp: plot_histogram_def split: sum.splits prod.splits)
    qed
  qed (use Inr in \<open>simp_all add: plot_histogram_def\<close>)
qed

lemma run_frames_config: "fst (snd (run_frames frames config w)) = config"
proof (induction frames arbitrary: w)
  case Nil
  then show ?case by simp
next
  case (Cons i frames)
  obtain r c' w' where step: "plot_histogram config w = (r, c', w')"
    by (cases "plot_histogram config w")
  then have "c' = config" using plot_histogram_config [of config w] by simp
  with step Cons show ?case by (cases r) (simp_all add: draw_histogram_def)
qed

section \<open>The file cannot be opened\<close>

text \<open>
  Claim C1: for every path whose open fails, the program prints an error message naming the
  path, prints the usage text and exits with status 1.

  The handler of \<^verbatim>\<open>read_data\<close> prints the message and then calls
  \<^verbatim>\<open>display_help()\<close>, a name the module never binds. Whatever the world and the path,
  when the open fails the call ends with \<^verbatim>\<open>NameError\<close>, after the one message and
  nothing else was printed: the usage text is not printed and \<^verbatim>\<open>sys.exit(1)\<close> is not
  reached.
\<close>

theorem open_failure_raises_name_error:
  "read_data filePath (w\<lparr>files := (files w)(filePath := None)\<rparr>) =
     (Inl (NameError ''display_help''),
      w\<lparr>files := (files w)(filePath := None),
        stdout := stdout w @ [Text (open_error_message filePath)]\<rparr>)"
  by (simp add: read_data_def display_help_def py_print_def)

section \<open>When the bin layout is refused\<close>

text \<open>
  Claim C2, as amended: for a settings dictionary whose \<^verbatim>\<open>bins\<close> and
  \<^verbatim>\<open>binlength\<close> are numbers, the bin-layout computation raises the configuration error
  if and only if it is not the case that one of the two is zero and the other is strictly
  positive. (The claim said: if and only if not exactly one of them is non-zero. A negative
  value is non-zero, and is refused.)
\<close>

theorem bin_layout_config_error_iff:
  assumes "config ''bins'' = Some b" and "config ''binlength'' = Some l"
    and "numeric b" and "numeric l"
  shows "bin_layout config maxrange minrange = Inl config_error \<longleftrightarrow>
    \<not> ((py_eq0 b \<and> py_gt0 l = Inr True) \<or> (py_eq0 l \<and> py_gt0 b = Inr True))"
proof -
  obtain pl where pl: "py_gt0 l = Inr pl" using py_gt0_numeric [OF assms(4)] by blast
  obtain pb where pb: "py_gt0 b = Inr pb" using py_gt0_numeric [OF assms(3)] by blast
  have first: "bin_layout config maxrange minrange \<noteq> Inl config_error" if "py_eq0 b" "pl"
    using that assms(1,2) pl py_sub_no_config_error py_truediv_no_config_error
      py_int_no_config_error
    by (auto simp: bin_layout_def getitem_def and_then_Inl dest!: py_truediv_float)
  have second: "bin_layout config maxrange minrange \<noteq> Inl config_error"
    if "\<not> (py_eq0 b \<and> pl)" "py_eq0 l" "pb"
    using that assms(1,2) pl pb py_sub_no_config_error py_truediv_no_config_error
    by (auto simp: bin_layout_def getitem_def and_then_Inl)
  have other: "bin_layout config maxrange minrange = Inl config_error"
    if "\<not> (py_eq0 b \<and> pl)" "\<not> (py_eq0 l \<and> pb)"
    using that assms(1,2) pl pb
    by (auto simp: bin_layout_def getitem_def)
  show ?thesis using first second other pl pb by auto
qed

text \<open>With \<^verbatim>\<open>bins=4\<close> and the default \<^verbatim>\<open>binlength\<close> of 0 the layout is accepted.\<close>

theorem bin_layout_config_error_iff_witness:
  "(default_config(''bins'' \<mapsto> PInt 4)) ''bins'' = Some (PInt 4) \<and>
   (default_config(''bins'' \<mapsto> PInt 4)) ''binlength'' = Some (PInt 0) \<and>
   numeric (PInt 4) \<and> numeric (PInt 0) \<and>
   bin_layout (default_config(''bins'' \<mapsto> PInt 4)) (PFloat (Fin 40)) (PInt 0) \<noteq> Inl config_error"
proof -
  have a: "(default_config(''bins'' \<mapsto> PInt 4)) ''bins'' = Some (PInt 4)" by simp
  have b: "(default_config(''bins'' \<mapsto> PInt 4)) ''binlength'' = Some (PInt 0)"
    by (simp add: default_config_def)
  have c: "numeric (PInt 4)" "numeric (PInt 0)" by simp_all
  have "bin_layout (default_config(''bins'' \<mapsto> PInt 4)) (PFloat (Fin 40)) (PInt 0) \<noteq> Inl config_error"
    unfolding bin_layout_config_error_iff [OF a b c] by simp
  with a b c show ?thesis by blast
qed

text \<open>The token \<^verbatim>\<open>binlength=-1\<close> gives settings in which exactly one of the two is
  non-zero, and the layout is refused.\<close>

theorem bin_layout_config_error_counterexample:
  "convert_arg default_config ''binlength=-1'' =
     Inr (default_config(''binlength'' \<mapsto> PFloat (Fin (- 1)))) \<and>
   exactly_one_nonzero (default_config(''binlength'' \<mapsto> PFloat (Fin (- 1)))) \<and>
   bin_layout (default_config(''binlength'' \<mapsto> PFloat (Fin (- 1)))) (PFloat (Fin 1500000)) (PInt 0)
     = Inl config_error"
proof -
  have k: "lower ''binlength'' = ''binlength''" by code_simp
  have v: "float_of_string ''-1'' = Some (Fin (- 1))" by code_simp
  have "convert_arg default_config ''binlength=-1'' =
          Inr (default_config(''binlength'' \<mapsto> PFloat (Fin (- 1))))"
    using k v by (simp add: convert_arg_def)
  moreover have "exactly_one_nonzero (default_config(''binlength'' \<mapsto> PFloat (Fin (- 1))))"
    by (simp add: exactly_one_nonzero_def default_config_def)
  moreover have "bin_layout (default_config(''binlength'' \<mapsto> PFloat (Fin (- 1))))
      (PFloat (Fin 1500000)) (PInt 0) = Inl config_error"
    by (simp add: bin_layout_def getitem_def default_config_def)
  ultimately show ?thesis by simp
qed

section \<open>The bin width and the bin count\<close>




section \<open>Sample extraction\<close>



section \<open>The scenario of the five-line file\<close>

text \<open>
  Claim C5: for the file \<^verbatim>\<open>header\n1,10.0\n2,20.0\n3,bad\n4,30.0\n\<close> and the settings
  \<^verbatim>\<open>minrange=0\<close>, \<^verbatim>\<open>maxrange=40\<close>, \<^verbatim>\<open>bins=4\<close>, the samples are 10, 20 and 30 (the
  row \<^verbatim>\<open>3,bad\<close> is skipped), the bin width is 10, and the render cycle draws one set of
  bars with the edges 0, 10, 20, 30, 40 and the heights 0, 1, 1, 1.
\<close>

theorem scenario_histogram:
  "fst (read_data ''data.csv'' scenario_world) = Inr [Fin 10, Fin 20, Fin 30] \<and>
   (case fst (parse_args scenario_argv scenario_world) of
      Inl e \<Rightarrow> False
    | Inr config \<Rightarrow>
        config ''minrange'' = Some (PFloat (Fin 0)) \<and>
        config ''maxrange'' = Some (PFloat (Fin 40)) \<and>
        config ''bins'' = Some (PInt 4) \<and>
        bin_layout config (PFloat (Fin 40)) (PFloat (Fin 0)) = Inr (PInt 4, PFloat (Fin 10))) \<and>
   fst (main scenario_argv [0] scenario_world) = Inr () \<and>
   map (\<lambda>b. (edges b, heights b, label_bin_length (bar_label b)))
       (bars (fig (snd (main scenario_argv [0] scenario_world))))
     = [([Fin 0, Fin 10, Fin 20, Fin 30, Fin 40], [0, 1, 1, 1], PFloat (Fin 10))]"
  by code_simp

section \<open>Malformed tokens\<close>

text \<open>
  Claim C6: when a command-line token is malformed (it does not split at \<^verbatim>\<open>=\<close> into
  exactly two parts), argument parsing prints the usage text and ends the process by
  \<^verbatim>\<open>sys.exit\<close> with a message naming a token of the command line, hence with a
  non-zero status; \<^verbatim>\<open>main\<close> ends the same way, and the figure is left as it was: no
  chart is drawn.
\<close>

theorem malformed_token_exits:
  assumes "tok \<in> set argv" and "length (split_on (CHR ''='') tok) \<noteq> 2"
  shows "\<exists>bad. bad \<in> set argv \<and>
           parse_args argv w =
             (Inl (SystemExit (ExitMsg (''Invalid argument format: '' @ bad))), py_print ModuleDoc w) \<and>
           exit_status (ExitMsg (''Invalid argument format: '' @ bad)) \<noteq> 0 \<and>
           main argv frames w =
             (Inl (SystemExit (ExitMsg (''Invalid argument format: '' @ bad))), py_print ModuleDoc w) \<and>
           stdout (snd (main argv frames w)) = stdout w @ [ModuleDoc] \<and>
           fig (snd (main argv frames w)) = fig w"
proof -
  obtain bad where "bad \<in> set argv"
    and "parse_args argv w =
      (Inl (SystemExit (ExitMsg (''Invalid argument format: '' @ bad))), py_print ModuleDoc w)"
    using parse_loop_rejects [OF assms] unfolding parse_args_def by blast
  then show ?thesis by (auto simp: main_def py_print_def)
qed

theorem malformed_token_exits_witness:
  "''bins'' \<in> set [''maxrange=40'', ''bins''] \<and> length (split_on (CHR ''='') ''bins'') \<noteq> 2 \<and>
   main [''maxrange=40'', ''bins''] [0, 1] no_files =
     (Inl (SystemExit (ExitMsg ''Invalid argument format: bins'')), py_print ModuleDoc no_files) \<and>
   fig (snd (main [''maxrange=40'', ''bins''] [0, 1] no_files)) = empty_figure"
proof -
  have a: "''bins'' \<in> set [''maxrange=40'', ''bins'']" by simp
  have b: "length (split_on (CHR ''='') ''bins'') \<noteq> 2" by simp
  obtain bad where bad: "bad \<in> set [''maxrange=40'', ''bins'']"
    "main [''maxrange=40'', ''bins''] [0, 1] no_files =
       (Inl (SystemExit (ExitMsg (''Invalid argument format: '' @ bad))), py_print ModuleDoc no_files)"
    "fig (snd (main [''maxrange=40'', ''bins''] [0, 1] no_files)) = fig no_files"
    using malformed_token_exits [OF a b, of no_files "[0, 1]"] by blast
  have c: "fst (main [''maxrange=40'', ''bins''] [0, 1] no_files) =
       Inl (SystemExit (ExitMsg ''Invalid argument format: bins''))"
    by code_simp
  from bad(2) c have "bad = ''bins''" by simp
  with a b bad show ?thesis by (simp add: no_files_def)
qed

section \<open>Running the render cycle twice\<close>

text \<open>
  Claim C7: for every settings dictionary and every state of the files, running the render
  cycle a second time, on the world the first run left, gives the same result and the same
  figure as the first run: the same bars (heights, edges, and the bin count and bin width
  in their label), labels, ticks and annotations.
\<close>

theorem render_cycle_idempotent:
  "(case plot_histogram config w of
      (r1, config1, w1) \<Rightarrow>
        (case plot_histogram config1 w1 of
           (r2, config2, w2) \<Rightarrow> r2 = r1 \<and> fig w2 = fig w1 \<and> files w2 = files w))"
  using plot_histogram_stable [OF plot_histogram_files [of config w], of config]
    plot_histogram_files [of config w]
    plot_histogram_files [of config "snd (snd (plot_histogram config w))"]
  by (auto simp: plot_histogram_config case_prod_beta)

section \<open>The settings are only read\<close>

text \<open>
  Claim C8: the render cycle leaves the settings dictionary as it was: after
  \<^verbatim>\<open>plot_histogram\<close>, after \<^verbatim>\<open>draw_histogram\<close> and after any number of frames the
  dictionary maps every key to what it mapped it to before. (Sample extraction is handed
  the path only.)
\<close>

theorem settings_unchanged:
  "fst (snd (plot_histogram config w)) = config \<and>
   fst (snd (draw_histogram i config w)) = config \<and>
   fst (snd (run_frames frames config w)) = config"
  by (simp add: plot_histogram_config run_frames_config draw_histogram_def)

section \<open>Keys written in another case\<close>



section \<open>No file is named\<close>

text \<open>
  Claim C10, as amended: the default settings have no \<^verbatim>\<open>file\<close> key; for every command
  line whose tokens are all well-formed and none of which has the key \<^verbatim>\<open>file\<close>,
  argument parsing succeeds, printing nothing, with settings that have no \<^verbatim>\<open>file\<close>
  key; a render cycle with them raises \<^verbatim>\<open>KeyError\<close> for \<^verbatim>\<open>file\<close> before anything
  is read, printed or drawn, and so does \<^verbatim>\<open>main\<close> in its first frame. (The claim said:
  for every command line without a \<^verbatim>\<open>file=\<close> token.)
\<close>

theorem missing_file_key_error:
  assumes "\<forall>tok \<in> set argv. well_formed_token tok"
    and "\<forall>tok \<in> set argv. hd (split_on (CHR ''='') tok) \<noteq> ''file''"
  shows "default_config ''file'' = None \<and>
         (\<exists>config. parse_args argv w = (Inr config, w) \<and> config ''file'' = None \<and>
            plot_histogram config w' = (Inl (KeyError ''file''), config, w') \<and>
            main argv (i # frames) w = (Inl (KeyError ''file''), w\<lparr>fig := empty_figure\<rparr>))"
proof -
  have d: "default_config ''file'' = None" by (simp add: default_config_def)
  obtain config where c: "parse_args argv w = (Inr config, w)" "config ''file'' = None"
    using parse_loop_no_file [of argv default_config w] assms d
    unfolding parse_args_def by blast
  have p: "plot_histogram config w2 = (Inl (KeyError ''file''), config, w2)" for w2
    using c(2) by (simp add: plot_histogram_def getitem_def)
  have "main argv (i # frames) w = (Inl (KeyError ''file''), w\<lparr>fig := empty_figure\<rparr>)"
    using c(1) p by (simp add: main_def draw_histogram_def)
  with d c p show ?thesis by blast
qed

theorem missing_file_key_error_witness:
  "well_formed_token ''bins=4'' \<and> well_formed_token ''FILE=data.csv'' \<and>
   hd (split_on (CHR ''='') ''bins=4'') \<noteq> ''file'' \<and>
   hd (split_on (CHR ''='') ''FILE=data.csv'') \<noteq> ''file'' \<and>
   main [''bins=4'', ''FILE=data.csv''] [0, 1] no_files = (Inl (KeyError ''file''), no_files)"
proof -
  have t: "well_formed_token ''bins=4''" "well_formed_token ''FILE=data.csv''" by code_simp+
  have k: "hd (split_on (CHR ''='') ''bins=4'') \<noteq> ''file''"
    "hd (split_on (CHR ''='') ''FILE=data.csv'') \<noteq> ''file''" by simp_all
  have a: "\<forall>tok \<in> set [''bins=4'', ''FILE=data.csv'']. well_formed_token tok"
    using t by simp
  have b: "\<forall>tok \<in> set [''bins=4'', ''FILE=data.csv'']. hd (split_on (CHR ''='') tok) \<noteq> ''file''"
    using k by simp
  have "main [''bins=4'', ''FILE=data.csv''] [0, 1] no_files =
          (Inl (KeyError ''file''), no_files\<lparr>fig := empty_figure\<rparr>)"
    using missing_file_key_error [OF a b, of no_files _ 0 "[1]"] by blast
  then show ?thesis using t k by (simp add: no_files_def)
qed

text \<open>The command line \<^verbatim>\<open>bins\<close> has no \<^verbatim>\<open>file=\<close> token, and argument parsing does
  not succeed on it.\<close>

theorem missing_file_key_error_counterexample:
  "hd (split_on (CHR ''='') ''bins'') \<noteq> ''file'' \<and>
   fst (parse_args [''bins''] no_files) = Inl (SystemExit (ExitMsg ''Invalid argument format: bins''))"
  by (simp add: parse_args_def convert_arg_def)

section \<open>What argument parsing stores\<close>

text \<open>
  Whenever argument parsing succeeds, the settings hold an int under \<^verbatim>\<open>bins\<close>, numbers
  under \<^verbatim>\<open>binlength\<close>, \<^verbatim>\<open>maxrange\<close> and \<^verbatim>\<open>minrange\<close>, and strings under
  \<^verbatim>\<open>color\<close>, \<^verbatim>\<open>values\<close> and (if present) \<^verbatim>\<open>file\<close>: the render cycle never meets
  a string where it compares or subtracts.
\<close>

theorem parsed_settings_typed:
  "parse_args argv w = (Inr config, w') \<Longrightarrow> settings_typed config"
proof -
  have "settings_typed default_config" by (simp add: settings_typed_def default_config_def)
  then show "parse_args argv w = (Inr config, w') \<Longrightarrow> settings_typed config"
    unfolding parse_args_def by (rule parse_loop_typed)
qed

theorem parsed_settings_typed_witness:
  "fst (parse_args [''BINS=5'', ''binlength=2.5''] no_files)
     = Inr (default_config(''BINS'' \<mapsto> PInt 5, ''binlength'' \<mapsto> PFloat (Fin (5 / 2)))) \<and>
   settings_typed (default_config(''BINS'' \<mapsto> PInt 5, ''binlength'' \<mapsto> PFloat (Fin (5 / 2))))"
proof -
  have k: "lower ''BINS'' = ''bins''" "lower ''binlength'' = ''binlength''" by code_simp+
  have v: "int_of_string ''5'' = Some 5" "float_of_string ''2.5'' = Some (Fin (5 / 2))"
    by code_simp+
  have p: "parse_args [''BINS=5'', ''binlength=2.5''] no_files
     = (Inr (default_config(''BINS'' \<mapsto> PInt 5, ''binlength'' \<mapsto> PFloat (Fin (5 / 2)))), no_files)"
    using k v by (simp add: parse_args_def convert_arg_def)
  from parsed_settings_typed [OF p] p show ?thesis by simp
qed

text \<open>
  A token that splits into a key and a value, with a key that is not a recognised key even
  when lowered, is accepted and changes nothing.
\<close>

theorem unknown_key_ignored:
  "split_on (CHR ''='') tok = [key, val] \<Longrightarrow> lower key \<notin> set recognised_keys \<Longrightarrow>
   convert_arg config tok = Inr config"
  by (simp add: convert_arg_def recognised_keys_def)

theorem unknown_key_ignored_witness:
  "split_on (CHR ''='') ''colour=red'' = [''colour'', ''red''] \<and>
   lower ''colour'' \<notin> set recognised_keys \<and>
   fst (parse_args [''colour=red''] no_files) = Inr default_config"
proof -
  have a: "split_on (CHR ''='') ''colour=red'' = [''colour'', ''red'']" by simp
  have b: "lower ''colour'' \<notin> set recognised_keys" by code_simp
  show ?thesis using unknown_key_ignored [OF a b, of default_config] a b
    by (simp add: parse_args_def)
qed

end
